theory Spec2Isabelle
  imports Complex_Main "HOL-Library.AList"
begin

section \<open>JavaScript values\<close>

text \<open>
  The data that flows through the site's scripts is JSON data: what \<^verbatim>\<open>JSON.parse\<close>
  returns for a stored string or a response body, and the object literals of the
  scripts themselves. A number is an IEEE double: a finite value, an infinity or NaN.
  An object is its list of own properties in insertion order, which is the order of
  enumeration for keys that are not array indices; a key that occurs twice in the list
  counts once, at its first place. Properties inherited from \<^verbatim>\<open>Object.prototype\<close>
  are not part of the model. Strings are byte strings.
\<close>

datatype jsnum = Finite real | PosInfinity | NegInfinity | NaN

datatype jsval =
    JUndef
  | JNull
  | JBool bool
  | JNum jsnum
  | JStr string
  | JArr "jsval list"
  | JObj "(string \<times> jsval) list"

datatype error =
    NetworkError
  | SyntaxError
  | TypeError
  | RangeError
  | ReferenceError string
  | Error string

text \<open>ToBoolean: what \<^verbatim>\<open>if (v)\<close>, \<^verbatim>\<open>!v\<close>, \<^verbatim>\<open>a && b\<close> and \<^verbatim>\<open>a || b\<close> test.\<close>

fun truthy :: "jsval \<Rightarrow> bool" where
  "truthy JUndef = False"
| "truthy JNull = False"
| "truthy (JBool b) = b"
| "truthy (JNum n) = (n \<noteq> Finite 0 \<and> n \<noteq> NaN)"
| "truthy (JStr s) = (s \<noteq> [])"
| "truthy (JArr xs) = True"
| "truthy (JObj kvs) = True"

definition js_and :: "jsval \<Rightarrow> jsval \<Rightarrow> jsval" where
  "js_and a b = (if truthy a then b else a)"

definition js_or :: "jsval \<Rightarrow> jsval \<Rightarrow> jsval" where
  "js_or a b = (if truthy a then a else b)"

text \<open>
  Strict equality \<^verbatim>\<open>===\<close>. Two objects or arrays are equal only when they are the
  same reference; the scripts compare against string literals and \<^verbatim>\<open>undefined\<close>
  only, where no reference is shared.
\<close>

fun strict_eq :: "jsval \<Rightarrow> jsval \<Rightarrow> bool" where
  "strict_eq JUndef JUndef = True"
| "strict_eq JNull JNull = True"
| "strict_eq (JBool a) (JBool b) = (a = b)"
| "strict_eq (JNum a) (JNum b) = (a = b \<and> a \<noteq> NaN)"
| "strict_eq (JStr a) (JStr b) = (a = b)"
| "strict_eq a b = False"

text \<open>
  An array index as a property key: the canonical decimal numeral of a natural number.
\<close>

definition digit_of :: "char \<Rightarrow> nat option" where
  "digit_of c =
     (let n = (of_char c :: nat) in if 48 \<le> n \<and> n \<le> 57 then Some (n - 48) else None)"

fun digits_value :: "nat \<Rightarrow> string \<Rightarrow> nat option" where
  "digits_value acc [] = Some acc"
| "digits_value acc (c # cs) =
     (case digit_of c of None \<Rightarrow> None | Some d \<Rightarrow> digits_value (10 * acc + d) cs)"

definition index_of_key :: "string \<Rightarrow> nat option" where
  "index_of_key k =
     (case k of
        [] \<Rightarrow> None
      | c # cs \<Rightarrow> if c = CHR ''0'' \<and> cs \<noteq> [] then None else digits_value 0 k)"

text \<open>
  Reading a property, \<^verbatim>\<open>v.k\<close> or \<^verbatim>\<open>v[k]\<close>: a TypeError on \<^verbatim>\<open>null\<close> and
  \<^verbatim>\<open>undefined\<close> (the result \<open>None\<close>), \<^verbatim>\<open>undefined\<close> for a property that is
  not there. Arrays and strings have \<^verbatim>\<open>length\<close> and their indices.
\<close>

definition indexed_prop :: "jsval list \<Rightarrow> string \<Rightarrow> jsval" where
  "indexed_prop xs k =
     (if k = ''length'' then JNum (Finite (real (length xs)))
      else (case index_of_key k of
              None \<Rightarrow> JUndef
            | Some i \<Rightarrow> if i < length xs then xs ! i else JUndef))"

fun js_get :: "jsval \<Rightarrow> string \<Rightarrow> jsval option" where
  "js_get JUndef k = None"
| "js_get JNull k = None"
| "js_get (JObj kvs) k = Some (case map_of kvs k of None \<Rightarrow> JUndef | Some v \<Rightarrow> v)"
| "js_get (JArr xs) k = Some (indexed_prop xs k)"
| "js_get (JStr s) k = Some (indexed_prop (map (\<lambda>c. JStr [c]) s) k)"
| "js_get (JBool b) k = Some JUndef"
| "js_get (JNum n) k = Some JUndef"

section \<open>The platform\<close>

text \<open>
  What the browser provides and the scripts only call: the JSON codec, the \<^verbatim>\<open>Date\<close>
  constructor and the clock, the conversions of a value to a property key and to a
  number, the network, and the path of the page. Every function of the scripts takes
  the platform as its first argument, and every theorem holds for any platform.

  \<^item> \<open>JSON_parse\<close>: \<open>None\<close> is the SyntaxError of \<^verbatim>\<open>JSON.parse\<close>.
  \<^item> \<open>Date_value\<close>: the time value, in milliseconds, of \<^verbatim>\<open>new Date(v)\<close>; \<open>None\<close> is
    the NaN of an invalid date.
  \<^item> \<open>clock\<close>: the time value of \<^verbatim>\<open>new Date()\<close>.
\<close>

datatype request = GET string | POST string string

datatype outcome = Rejected | Response bool string

record platform =
  JSON_parse :: "string \<Rightarrow> jsval option"
  JSON_stringify :: "jsval \<Rightarrow> string"
  Date_value :: "jsval \<Rightarrow> int option"
  clock :: int
  toISOString :: "int \<Rightarrow> string"
  ToPropertyKey :: "jsval \<Rightarrow> string"
  ToNumber :: "jsval \<Rightarrow> jsnum"
  network :: "request list \<Rightarrow> request \<Rightarrow> outcome"
  pathname :: string

text \<open>\<^verbatim>\<open>a > b\<close> on two dates compares their time values; with a NaN it is false.\<close>

definition date_gt :: "int option \<Rightarrow> int option \<Rightarrow> bool" where
  "date_gt a b = (case (a, b) of (Some x, Some y) \<Rightarrow> y < x | _ \<Rightarrow> False)"

section \<open>auth.js\<close>

record credential =
  username :: string
  password :: string
  role :: string

record auth_config =
  users :: "credential list"

definition AUTH_CONFIG :: auth_config where
  "AUTH_CONFIG =
     \<lparr>users = [\<lparr>username = ''admin'', password = ''G9m#tX2!pV7q@Lz4'', role = ''admin''\<rparr>]\<rparr>"

definition authenticate :: "jsval \<Rightarrow> jsval \<Rightarrow> jsval" where
  "authenticate uname pw =
     (case find (\<lambda>u. strict_eq (JStr (username u)) uname \<and> strict_eq (JStr (password u)) pw)
             (users AUTH_CONFIG) of
        Some user \<Rightarrow>
          JObj [(''authenticated'', JBool True),
                (''username'', JStr (username user)),
                (''role'', JStr (role user))]
      | None \<Rightarrow> JObj [(''authenticated'', JBool False)])"

text \<open>
  The \<^verbatim>\<open>try\<close> block of \<^verbatim>\<open>isAuthenticated\<close>: \<^verbatim>\<open>JSON.parse\<close> may throw, and so does
  destructuring \<^verbatim>\<open>null\<close>.
\<close>

definition isAuthenticated_try :: "platform \<Rightarrow> string \<Rightarrow> error + jsval" where
  "isAuthenticated_try P authData =
     (case JSON_parse P authData of
        None \<Rightarrow> Inl SyntaxError
      | Some v \<Rightarrow>
          (case (js_get v ''username'', js_get v ''token'', js_get v ''expires'') of
             (Some u, Some t, Some e) \<Rightarrow>
               Inr (js_and (js_and u t) (JBool (date_gt (Date_value P e) (Some (clock P)))))
           | _ \<Rightarrow> Inl TypeError))"

definition isAuthenticated :: "platform \<Rightarrow> (string \<rightharpoonup> string) \<Rightarrow> jsval" where
  "isAuthenticated P localStorage =
     (case localStorage ''auth'' of
        None \<Rightarrow> JBool False
      | Some authData \<Rightarrow>
          if authData = [] then JBool False
          else (case isAuthenticated_try P authData of
                  Inl e \<Rightarrow> JBool False
                | Inr v \<Rightarrow> v))"

definition getCurrentUser :: "platform \<Rightarrow> (string \<rightharpoonup> string) \<Rightarrow> jsval" where
  "getCurrentUser P localStorage =
     (case localStorage ''auth'' of
        None \<Rightarrow> JNull
      | Some authData \<Rightarrow>
          if authData = [] then JNull
          else (case JSON_parse P authData of
                  None \<Rightarrow> JNull
                | Some v \<Rightarrow> v))"

section \<open>The page\<close>

text \<open>
  The document is a forest of nodes. An element carries its \<^verbatim>\<open>class\<close> attribute as
  written and the last values given to its \<^verbatim>\<open>href\<close> and \<^verbatim>\<open>title\<close>; its text is
  held by its children. Assigning \<^verbatim>\<open>textContent\<close> replaces all the children of the
  element by one text node, which holds the assigned value.
\<close>

record element =
  className :: string
  href :: jsval
  title :: jsval

datatype node = Text jsval | Element element "node list"

text \<open>
  \<^verbatim>\<open>className.split(' ')\<close>, and the class tokens a selector matches against: the
  classes of an element are taken to be separated by spaces.
\<close>

fun split_space :: "string \<Rightarrow> string list" where
  "split_space [] = [[]]"
| "split_space (c # cs) =
     (if c = CHR '' '' then [] # split_space cs
      else (case split_space cs of [] \<Rightarrow> [[c]] | w # ws \<Rightarrow> (c # w) # ws))"

definition classList :: "string \<Rightarrow> string list" where
  "classList cn = filter (\<lambda>w. w \<noteq> []) (split_space cn)"

text \<open>
  A selector \<^verbatim>\<open>.a.b\<close> is the list of its class names. It is read as a compound class
  selector when every name is a CSS identifier (letters, digits, hyphen, underscore and
  bytes beyond ASCII, not starting with a digit); for any other name
  \<^verbatim>\<open>querySelectorAll\<close> is taken to raise its SyntaxError.
\<close>

definition ident_start :: "char \<Rightarrow> bool" where
  "ident_start c =
     (let n = (of_char c :: nat)
      in (65 \<le> n \<and> n \<le> 90) \<or> (97 \<le> n \<and> n \<le> 122) \<or> n = 95 \<or> 128 \<le> n)"

definition ident_char :: "char \<Rightarrow> bool" where
  "ident_char c = (ident_start c \<or> c = CHR ''-'' \<or> digit_of c \<noteq> None)"

definition css_ident :: "string \<Rightarrow> bool" where
  "css_ident s =
     (case s of
        [] \<Rightarrow> False
      | c # cs \<Rightarrow>
          if c = CHR ''-''
          then (case cs of
                  [] \<Rightarrow> False
                | d # ds \<Rightarrow> (d = CHR ''-'' \<or> ident_start d) \<and> list_all ident_char ds)
          else ident_start c \<and> list_all ident_char cs)"

definition selects :: "string list \<Rightarrow> string \<Rightarrow> bool" where
  "selects sel cn = list_all (\<lambda>c. c \<in> set (classList cn)) sel"

fun elements_of :: "node \<Rightarrow> element list" where
  "elements_of (Text v) = []"
| "elements_of (Element e cs) = e # concat (map elements_of cs)"

definition querySelectorAll :: "string list \<Rightarrow> node list \<Rightarrow> error + element list" where
  "querySelectorAll sel doc =
     (if list_all css_ident sel
      then Inr (filter (\<lambda>e. selects sel (className e)) (concat (map elements_of doc)))
      else Inl SyntaxError)"

text \<open>
  \<^verbatim>\<open>list.forEach(body)\<close> over the elements a selector found. The list is static and
  in document order, so an element is visited after its ancestors: when the body gives
  an ancestor new text, the element is detached and what is written to it afterwards is
  not in the document. The function computes the document that results; \<open>body\<close> gets
  the element and its children and returns the element as written.
\<close>

fun forEach_selected :: "string list \<Rightarrow> (element \<Rightarrow> node list \<Rightarrow> node) \<Rightarrow> node \<Rightarrow> node" where
  "forEach_selected sel body (Text v) = Text v"
| "forEach_selected sel body (Element e cs) =
     (if selects sel (className e)
      then body e (map (forEach_selected sel body) cs)
      else Element e (map (forEach_selected sel body) cs))"

section \<open>The button manager of the hosted row store\<close>

datatype event = Fetched request | Synchronized

text \<open>
  The manager and the page it runs on. \<open>trace\<close> is not a field of the program: it
  records, oldest first, each \<^verbatim>\<open>fetch\<close> and each call of \<^verbatim>\<open>updateButtons\<close>.
\<close>

record state =
  buttons :: jsval
  config :: jsval
  document :: "node list"
  localStorage :: "string \<rightharpoonup> string"
  trace :: "event list"

fun sent :: "event list \<Rightarrow> request list" where
  "sent [] = []"
| "sent (Fetched r # t) = r # sent t"
| "sent (Synchronized # t) = sent t"

definition fetch :: "platform \<Rightarrow> request \<Rightarrow> state \<Rightarrow> outcome \<times> state" where
  "fetch P r s = (network P (sent (trace s)) r, s\<lparr>trace := trace s @ [Fetched r]\<rparr>)"

definition setItem :: "string \<Rightarrow> string \<Rightarrow> state \<Rightarrow> state" where
  "setItem k v s = s\<lparr>localStorage := (localStorage s)(k \<mapsto> v)\<rparr>"

definition endsWith :: "string \<Rightarrow> string \<Rightarrow> bool" where
  "endsWith s suf = (length suf \<le> length s \<and> drop (length s - length suf) s = suf)"

definition on_admin_page :: "platform \<Rightarrow> bool" where
  "on_admin_page P = endsWith (pathname P) ''admin.html''"

definition SHEETDB_API :: string where
  "SHEETDB_API = ''https://sheetdb.io/api/v1/ixretu8my1aw8''"

definition default_buttons :: jsval where
  "default_buttons =
     JObj [(''primary'', JObj [(''text'', JStr ''Get Started''), (''url'', JStr ''#''),
                               (''column'', JStr ''btn1''), (''displayText'', JStr ''Get Started'')]),
           (''secondary'', JObj [(''text'', JStr ''Learn More''), (''url'', JStr ''#''),
                                 (''column'', JStr ''btn2''), (''displayText'', JStr ''Learn More'')]),
           (''accent'', JObj [(''text'', JStr ''Join Now''), (''url'', JStr ''#''),
                              (''column'', JStr ''btn3''), (''displayText'', JStr ''Join Now'')])]"

text \<open>The decimal numeral of an array index, the key \<^verbatim>\<open>Object.entries\<close> gives it.\<close>

function decimal :: "nat \<Rightarrow> string" where
  "decimal n =
     (if n < 10 then [char_of (48 + n)] else decimal (n div 10) @ [char_of (48 + n mod 10)])"
  by pat_completeness auto
termination
  by (relation "measure id") auto

definition indexed :: "jsval list \<Rightarrow> (string \<times> jsval) list" where
  "indexed xs = zip (map decimal [0..<length xs]) xs"

text \<open>
  \<^verbatim>\<open>Object.entries(v)\<close>, and the own properties \<^verbatim>\<open>{...v}\<close> copies. The first throws
  a TypeError on \<^verbatim>\<open>null\<close> and \<^verbatim>\<open>undefined\<close>, the second copies nothing from them.
\<close>

fun Object_entries :: "jsval \<Rightarrow> (string \<times> jsval) list option" where
  "Object_entries JUndef = None"
| "Object_entries JNull = None"
| "Object_entries (JObj kvs) = Some (AList.clearjunk kvs)"
| "Object_entries (JArr xs) = Some (indexed xs)"
| "Object_entries (JStr s) = Some (indexed (map (\<lambda>c. JStr [c]) s))"
| "Object_entries (JBool b) = Some []"
| "Object_entries (JNum n) = Some []"



text \<open>
  Assigning a property, \<^verbatim>\<open>o.k = v\<close>, in strict code (a class body is strict): a
  TypeError on a primitive. An array takes an index it has; a named property of an
  array is beyond this value type and ends in \<open>None\<close> as well.
\<close>

fun js_set :: "jsval \<Rightarrow> string \<Rightarrow> jsval \<Rightarrow> jsval option" where
  "js_set (JObj kvs) k v = Some (JObj (AList.update k v kvs))"
| "js_set (JArr xs) k v =
     (case index_of_key k of
        None \<Rightarrow> None
      | Some i \<Rightarrow> if i < length xs then Some (JArr (xs[i := v])) else None)"
| "js_set w k v = None"

definition key_of :: "platform \<Rightarrow> jsval \<Rightarrow> string" where
  "key_of P v = (case v of JStr s \<Rightarrow> s | _ \<Rightarrow> ToPropertyKey P v)"

definition to_number :: "platform \<Rightarrow> jsval \<Rightarrow> jsnum" where
  "to_number P v = (case v of JNum n \<Rightarrow> n | _ \<Rightarrow> ToNumber P v)"

definition positive :: "jsnum \<Rightarrow> bool" where
  "positive n = (case n of Finite r \<Rightarrow> 0 < r | PosInfinity \<Rightarrow> True | _ \<Rightarrow> False)"

subsection \<open>updateButtons\<close>

definition button_writes :: "jsval \<Rightarrow> jsval \<Rightarrow> jsval \<Rightarrow> jsval \<Rightarrow> element \<Rightarrow> node list \<Rightarrow> node" where
  "button_writes url displayText text description button children =
     (let b1 = (if truthy url then button\<lparr>href := url\<rparr> else button);
          children1 = (if truthy displayText then [Text displayText]
                       else if truthy text then [Text text]
                       else children);
          b2 = (if truthy description then b1\<lparr>title := description\<rparr> else b1)
      in Element b2 children1)"

definition updateButtons_entry :: "string \<Rightarrow> jsval \<Rightarrow> node list \<Rightarrow> error + node list" where
  "updateButtons_entry type data doc =
     (case querySelectorAll [''btn'', type] doc of
        Inl e \<Rightarrow> Inl e
      | Inr found \<Rightarrow>
          (let sel = (if length found = 0 then [type] else [''btn'', type])
           in (case querySelectorAll sel doc of
                 Inl e \<Rightarrow> Inl e
               | Inr btns \<Rightarrow>
                   if length btns > 0
                   then (case (js_get data ''url'', js_get data ''displayText'',
                               js_get data ''text'', js_get data ''description'') of
                           (Some url, Some displayText, Some text, Some description) \<Rightarrow>
                             Inr (map (forEach_selected sel
                                         (button_writes url displayText text description)) doc)
                         | _ \<Rightarrow> Inl TypeError)
                   else Inr doc)))"

text \<open>
  The loop over the entries stops at the first exception; what was written before it
  stays written.
\<close>

fun forEach_entries :: "(string \<times> jsval) list \<Rightarrow> node list \<Rightarrow> error option \<times> node list" where
  "forEach_entries [] doc = (None, doc)"
| "forEach_entries (entry # es) doc =
     (case updateButtons_entry (fst entry) (snd entry) doc of
        Inl e \<Rightarrow> (Some e, doc)
      | Inr doc' \<Rightarrow> forEach_entries es doc')"

definition updateButtons_dom :: "jsval \<Rightarrow> node list \<Rightarrow> error option \<times> node list" where
  "updateButtons_dom bs doc =
     (if \<not> truthy bs then (None, doc)
      else (case Object_entries bs of
              None \<Rightarrow> (Some TypeError, doc)
            | Some es \<Rightarrow> forEach_entries es doc))"

definition updateButtons :: "state \<Rightarrow> (error + unit) \<times> state" where
  "updateButtons s =
     (case updateButtons_dom (buttons s) (document s) of
        (None, doc) \<Rightarrow> (Inr (), s\<lparr>document := doc, trace := trace s @ [Synchronized]\<rparr>)
      | (Some e, doc) \<Rightarrow> (Inl e, s\<lparr>document := doc, trace := trace s @ [Synchronized]\<rparr>))"

subsection \<open>loadButtonData, loadConfig and loadFromLocalStorage\<close>

text \<open>
  One step of the loop over the buttons: the button's column is read from the row and,
  when \<open>accept\<close> takes the value, stored as the button's \<^verbatim>\<open>url\<close>. The result is
  the button map and whether it was written.
\<close>

definition column_update ::
    "platform \<Rightarrow> (jsval \<Rightarrow> bool) \<Rightarrow> jsval \<Rightarrow> jsval \<Rightarrow> string \<times> jsval \<Rightarrow> error + jsval \<times> bool" where
  "column_update P accept row bs entry =
     (case js_get (snd entry) ''column'' of
        None \<Rightarrow> Inl TypeError
      | Some columnName \<Rightarrow>
          (case js_get row (key_of P columnName) of
             None \<Rightarrow> Inl TypeError
           | Some v \<Rightarrow>
               if accept v
               then (case js_get bs (fst entry) of
                       None \<Rightarrow> Inl TypeError
                     | Some button \<Rightarrow>
                         (case js_set button ''url'' v of
                            None \<Rightarrow> Inl TypeError
                          | Some button' \<Rightarrow>
                              (case js_set bs (fst entry) button' of
                                 None \<Rightarrow> Inl TypeError
                               | Some bs' \<Rightarrow> Inr (bs', True))))
               else Inr (bs, False)))"

fun forEach_columns ::
    "platform \<Rightarrow> (jsval \<Rightarrow> bool) \<Rightarrow> jsval \<Rightarrow> (string \<times> jsval) list \<Rightarrow> jsval \<times> bool
      \<Rightarrow> error option \<times> jsval \<times> bool" where
  "forEach_columns P accept row [] acc = (None, acc)"
| "forEach_columns P accept row (entry # es) acc =
     (case column_update P accept row (fst acc) entry of
        Inl e \<Rightarrow> (Some e, acc)
      | Inr (bs', written) \<Rightarrow> forEach_columns P accept row es (bs', snd acc \<or> written))"

definition nonempty_rows :: "platform \<Rightarrow> jsval \<Rightarrow> bool" where
  "nonempty_rows P data =
     (truthy data \<and>
      (case js_get data ''length'' of None \<Rightarrow> False | Some l \<Rightarrow> positive (to_number P l)))"

definition defined_nonempty :: "jsval \<Rightarrow> bool" where
  "defined_nonempty v = (\<not> strict_eq v JUndef \<and> \<not> strict_eq v (JStr []))"

definition defined :: "jsval \<Rightarrow> bool" where
  "defined v = (\<not> strict_eq v JUndef)"

definition loadButtonData_ok :: "platform \<Rightarrow> string \<Rightarrow> state \<Rightarrow> (error + unit) \<times> state" where
  "loadButtonData_ok P body s =
     (case JSON_parse P body of
        None \<Rightarrow> (Inl SyntaxError, s)
      | Some data \<Rightarrow>
          if nonempty_rows P data
          then (case js_get data ''0'' of
                  None \<Rightarrow> (Inl TypeError, s)
                | Some row \<Rightarrow>
                    (case Object_entries (buttons s) of
                       None \<Rightarrow> (Inl TypeError, s)
                     | Some es \<Rightarrow>
                         (case forEach_columns P defined_nonempty row es (buttons s, False) of
                            (Some e, bs, w) \<Rightarrow> (Inl e, s\<lparr>buttons := bs\<rparr>)
                          | (None, bs, w) \<Rightarrow>
                              (Inr (), setItem ''buttonData'' (JSON_stringify P bs)
                                         (s\<lparr>buttons := bs\<rparr>)))))
          else (Inr (), s))"

definition loadButtonData_fallback :: "platform \<Rightarrow> state \<Rightarrow> (error + unit) \<times> state" where
  "loadButtonData_fallback P s =
     (case localStorage s ''buttonData'' of
        None \<Rightarrow> (Inr (), s)
      | Some savedData \<Rightarrow>
          if savedData = [] then (Inr (), s)
          else (case JSON_parse P savedData of
                  None \<Rightarrow> (Inl SyntaxError, s)
                | Some v \<Rightarrow> (Inr (), s\<lparr>buttons := v\<rparr>)))"

definition loadButtonData_try :: "platform \<Rightarrow> state \<Rightarrow> (error + bool) \<times> state" where
  "loadButtonData_try P s =
     (case fetch P (GET (SHEETDB_API @ ''?sheet=Sheet1'')) s of
        (Rejected, s1) \<Rightarrow> (Inl NetworkError, s1)
      | (Response ok body, s1) \<Rightarrow>
          (case (if ok then loadButtonData_ok P body s1 else loadButtonData_fallback P s1) of
             (Inl e, s2) \<Rightarrow> (Inl e, s2)
           | (Inr u, s2) \<Rightarrow>
               if on_admin_page P then (Inr True, s2)
               else (case updateButtons s2 of
                       (Inl e, s3) \<Rightarrow> (Inl e, s3)
                     | (Inr u', s3) \<Rightarrow> (Inr True, s3))))"

definition loadButtonData :: "platform \<Rightarrow> state \<Rightarrow> bool \<times> state" where
  "loadButtonData P s =
     (case loadButtonData_try P s of
        (Inl e, s') \<Rightarrow> (False, s')
      | (Inr b, s') \<Rightarrow> (b, s'))"

definition loadFromLocalStorage :: "platform \<Rightarrow> state \<Rightarrow> bool \<times> state" where
  "loadFromLocalStorage P s =
     (case localStorage s ''buttonData'' of
        None \<Rightarrow> (False, s)
      | Some savedData \<Rightarrow>
          if savedData = [] then (False, s)
          else (case JSON_parse P savedData of
                  None \<Rightarrow> (False, s)
                | Some v \<Rightarrow>
                    (case updateButtons (s\<lparr>buttons := v\<rparr>) of
                       (Inl e, s') \<Rightarrow> (False, s')
                     | (Inr u, s') \<Rightarrow> (True, s'))))"

definition loadConfig_try :: "platform \<Rightarrow> state \<Rightarrow> (error + bool) \<times> state" where
  "loadConfig_try P s =
     (case fetch P (GET SHEETDB_API) s of
        (Rejected, s1) \<Rightarrow> (Inl NetworkError, s1)
      | (Response ok body, s1) \<Rightarrow>
          if \<not> ok then (Inl (Error ''Failed to load from SheetDB''), s1)
          else (case JSON_parse P body of
                  None \<Rightarrow> (Inl SyntaxError, s1)
                | Some data \<Rightarrow>
                    if nonempty_rows P data
                    then (case js_get data ''0'' of
                            None \<Rightarrow> (Inl TypeError, s1)
                          | Some row \<Rightarrow>
                              (case Object_entries (buttons s1) of
                                 None \<Rightarrow> (Inl TypeError, s1)
                               | Some es \<Rightarrow>
                                   (case forEach_columns P defined row es (buttons s1, False) of
                                      (Some e, bs, w) \<Rightarrow> (Inl e, s1\<lparr>buttons := bs\<rparr>)
                                    | (None, bs, hasUpdates) \<Rightarrow>
                                        if hasUpdates
                                        then (Inr True, setItem ''buttonData'' (JSON_stringify P bs)
                                                          (s1\<lparr>buttons := bs\<rparr>))
                                        else (Inr False, s1\<lparr>buttons := bs\<rparr>))))
                    else (Inr False, s1)))"

definition loadConfig :: "platform \<Rightarrow> state \<Rightarrow> bool \<times> state" where
  "loadConfig P s =
     (case loadConfig_try P s of
        (Inl e, s') \<Rightarrow> loadFromLocalStorage P s'
      | (Inr b, s') \<Rightarrow> (b, s'))"


subsection \<open>init and the constructor\<close>

definition second_class :: "string \<Rightarrow> jsval" where
  "second_class cn = (case split_space cn of a # b # rest \<Rightarrow> JStr b | _ \<Rightarrow> JUndef)"

definition handler_writes :: "platform \<Rightarrow> jsval \<Rightarrow> element \<Rightarrow> node list \<Rightarrow> node" where
  "handler_writes P bs button children =
     (case js_get bs (key_of P (second_class (className button))) of
        None \<Rightarrow> Element button children
      | Some b \<Rightarrow>
          if truthy b
          then (case (js_get b ''url'', js_get b ''text'') of
                  (Some url, Some text) \<Rightarrow> Element (button\<lparr>href := url\<rparr>) [Text text]
                | _ \<Rightarrow> Element button children)
          else Element button children)"

definition init_handlers :: "platform \<Rightarrow> state \<Rightarrow> (error + unit) \<times> state" where
  "init_handlers P s =
     (case querySelectorAll [''btn''] (document s) of
        Inl e \<Rightarrow> (Inl e, s)
      | Inr found \<Rightarrow>
          if found = [] then (Inr (), s)
          else if buttons s = JNull \<or> buttons s = JUndef then (Inl TypeError, s)
          else (Inr (), s\<lparr>document := map (forEach_selected [''btn''] (handler_writes P (buttons s)))
                                            (document s)\<rparr>))"

text \<open>
  \<^verbatim>\<open>loadButtonData\<close> catches what it throws, so the \<^verbatim>\<open>catch\<close> of \<^verbatim>\<open>init\<close> is
  reached from \<^verbatim>\<open>updateButtons\<close> only. The timer \<^verbatim>\<open>init\<close> starts calls
  \<^verbatim>\<open>loadButtonData\<close> every five minutes: a tick of the poller is one such call.
\<close>

definition init :: "platform \<Rightarrow> state \<Rightarrow> (error + unit) \<times> state" where
  "init P s =
     (let s1 = snd (loadButtonData P s);
          s3 = (if on_admin_page P then s1
                else (case updateButtons s1 of
                        (Inl e, s2) \<Rightarrow> snd (loadFromLocalStorage P s2)
                      | (Inr u, s2) \<Rightarrow> s2))
      in if on_admin_page P then (Inr (), s3) else init_handlers P s3)"

definition ButtonManager :: "platform \<Rightarrow> state \<Rightarrow> (error + unit) \<times> state" where
  "ButtonManager P s = init P (s\<lparr>buttons := default_buttons\<rparr>)"


subsection \<open>updateButton\<close>






section \<open>The button manager of the static file (script.js)\<close>

definition configPath :: string where
  "configPath = ''./config.json''"

definition fallback_config :: jsval where
  "fallback_config =
     JObj [(''buttons'',
            JObj [(''primary'', JObj [(''text'', JStr ''Get Started''), (''url'', JStr ''#'')]),
                  (''secondary'', JObj [(''text'', JStr ''Learn More''), (''url'', JStr ''#'')]),
                  (''accent'', JObj [(''text'', JStr ''Join Now''), (''url'', JStr ''#'')])])]"

definition script_loadConfig :: "platform \<Rightarrow> state \<Rightarrow> state" where
  "script_loadConfig P s =
     (case fetch P (GET configPath) s of
        (Rejected, s1) \<Rightarrow> s1\<lparr>config := fallback_config\<rparr>
      | (Response ok body, s1) \<Rightarrow>
          if \<not> ok then s1\<lparr>config := fallback_config\<rparr>
          else (case JSON_parse P body of
                  None \<Rightarrow> s1\<lparr>config := fallback_config\<rparr>
                | Some c \<Rightarrow> s1\<lparr>config := c\<rparr>))"

text \<open>
  \<^verbatim>\<open>querySelector\<close> gives the first element, in document order, that the selector
  matches; \<open>write_first\<close> writes that element and leaves the rest (\<open>None\<close>: there is
  none).
\<close>

fun write_first :: "(element \<Rightarrow> bool) \<Rightarrow> (element \<Rightarrow> node list \<Rightarrow> node) \<Rightarrow> node \<Rightarrow> node option"
  and write_first_list ::
    "(element \<Rightarrow> bool) \<Rightarrow> (element \<Rightarrow> node list \<Rightarrow> node) \<Rightarrow> node list \<Rightarrow> node list option" where
  "write_first m body (Text v) = None"
| "write_first m body (Element e cs) =
     (if m e then Some (body e cs)
      else (case write_first_list m body cs of None \<Rightarrow> None | Some cs' \<Rightarrow> Some (Element e cs')))"
| "write_first_list m body [] = None"
| "write_first_list m body (n # ns) =
     (case write_first m body n of
        Some n' \<Rightarrow> Some (n' # ns)
      | None \<Rightarrow> (case write_first_list m body ns of None \<Rightarrow> None | Some ns' \<Rightarrow> Some (n # ns')))"

definition script_writes :: "jsval \<Rightarrow> jsval \<Rightarrow> jsval \<Rightarrow> element \<Rightarrow> node list \<Rightarrow> node" where
  "script_writes url text description buttonElement children =
     (let b1 = buttonElement\<lparr>href := url\<rparr>;
          b2 = (if truthy description then b1\<lparr>title := description\<rparr> else b1)
      in Element b2 [Text text])"

definition script_updateButtons_key :: "jsval \<Rightarrow> string \<Rightarrow> node list \<Rightarrow> error + node list" where
  "script_updateButtons_key btns buttonType doc =
     (case querySelectorAll [''btn'', buttonType] doc of
        Inl e \<Rightarrow> Inl e
      | Inr found \<Rightarrow>
          if found = [] then Inr doc
          else (case js_get btns buttonType of
                  None \<Rightarrow> Inl TypeError
                | Some buttonConfig \<Rightarrow>
                    (case (js_get buttonConfig ''url'', js_get buttonConfig ''text'',
                           js_get buttonConfig ''description'') of
                       (Some url, Some text, Some description) \<Rightarrow>
                         (case write_first_list (\<lambda>e. selects [''btn'', buttonType] (className e))
                                 (script_writes url text description) doc of
                            None \<Rightarrow> Inr doc
                          | Some doc' \<Rightarrow> Inr doc')
                     | _ \<Rightarrow> Inl TypeError)))"

fun script_forEach_keys :: "jsval \<Rightarrow> string list \<Rightarrow> node list \<Rightarrow> error option \<times> node list" where
  "script_forEach_keys btns [] doc = (None, doc)"
| "script_forEach_keys btns (k # ks) doc =
     (case script_updateButtons_key btns k doc of
        Inl e \<Rightarrow> (Some e, doc)
      | Inr doc' \<Rightarrow> script_forEach_keys btns ks doc')"

definition script_updateButtons_dom :: "jsval \<Rightarrow> node list \<Rightarrow> error option \<times> node list" where
  "script_updateButtons_dom cfg doc =
     (case js_get cfg ''buttons'' of
        None \<Rightarrow> (Some TypeError, doc)
      | Some btns \<Rightarrow>
          (case Object_entries btns of
             None \<Rightarrow> (Some TypeError, doc)
           | Some es \<Rightarrow> script_forEach_keys btns (map fst es) doc))"

definition script_updateButtons :: "state \<Rightarrow> (error + unit) \<times> state" where
  "script_updateButtons s =
     (case script_updateButtons_dom (config s) (document s) of
        (None, doc) \<Rightarrow> (Inr (), s\<lparr>document := doc, trace := trace s @ [Synchronized]\<rparr>)
      | (Some e, doc) \<Rightarrow> (Inl e, s\<lparr>document := doc, trace := trace s @ [Synchronized]\<rparr>))"



definition script_init :: "platform \<Rightarrow> state \<Rightarrow> (error + unit) \<times> state" where
  "script_init P s = script_updateButtons (script_loadConfig P s)"

section \<open>A test platform and test pages\<close>

text \<open>
  A small platform on which the functions can be run: its JSON codec knows the texts
  below, its network serves a table of answers and rejects every other request, and its
  clock stands at 1000.
\<close>

definition marker_valid :: string where
  \<open>marker_valid = ''{"username":"admin","token":"t1","expires":2000}''\<close>

definition marker_empty_user :: string where
  \<open>marker_empty_user = ''{"username":"","token":"t1","expires":2000}''\<close>

definition marker_bad_date :: string where
  \<open>marker_bad_date = ''{"username":"admin","token":"t1","expires":"soon"}''\<close>

definition marker_expired :: string where
  \<open>marker_expired = ''{"username":"admin","token":"t1","expires":500}''\<close>

definition empty_object_text :: string where
  \<open>empty_object_text = ''{}''\<close>

definition cached_text :: string where
  \<open>cached_text = ''{"primary":{"text":"Shop","url":"https://cached.example","column":"btn1"},"secondary":{"text":"Read","url":"#","column":"btn2"},"accent":{"text":"Join","url":"#","column":"btn3"}}''\<close>

definition cached_buttons :: jsval where
  "cached_buttons =
     JObj [(''primary'', JObj [(''text'', JStr ''Shop''), (''url'', JStr ''https://cached.example''),
                               (''column'', JStr ''btn1'')]),
           (''secondary'', JObj [(''text'', JStr ''Read''), (''url'', JStr ''#''),
                                 (''column'', JStr ''btn2'')]),
           (''accent'', JObj [(''text'', JStr ''Join''), (''url'', JStr ''#''),
                              (''column'', JStr ''btn3'')])]"

definition rows_text :: string where
  \<open>rows_text = ''[{"btn1":"https://a.example","btn2":"","btn3":"#"}]''\<close>

definition rows :: jsval where
  "rows = JArr [JObj [(''btn1'', JStr ''https://a.example''), (''btn2'', JStr ''''),
                      (''btn3'', JStr ''#'')]]"

definition no_rows_text :: string where
  \<open>no_rows_text = ''[]''\<close>

definition static_text :: string where
  \<open>static_text = ''{"buttons":{"primary":{"text":"Buy","url":"https://static.example"}}}''\<close>

definition static_config :: jsval where
  "static_config =
     JObj [(''buttons'',
            JObj [(''primary'', JObj [(''text'', JStr ''Buy''), (''url'', JStr ''https://static.example'')])])]"

definition json_table :: "(string \<times> jsval) list" where
  "json_table =
     [(marker_valid, JObj [(''username'', JStr ''admin''), (''token'', JStr ''t1''),
                           (''expires'', JNum (Finite 2000))]),
      (marker_empty_user, JObj [(''username'', JStr ''''), (''token'', JStr ''t1''),
                                (''expires'', JNum (Finite 2000))]),
      (marker_bad_date, JObj [(''username'', JStr ''admin''), (''token'', JStr ''t1''),
                              (''expires'', JStr ''soon'')]),
      (marker_expired, JObj [(''username'', JStr ''admin''), (''token'', JStr ''t1''),
                             (''expires'', JNum (Finite 500))]),
      (empty_object_text, JObj []),
      (cached_text, cached_buttons),
      (rows_text, rows),
      (no_rows_text, JArr []),
      (static_text, static_config)]"

definition test_stringify :: "jsval \<Rightarrow> string" where
  "test_stringify v =
     (case find (\<lambda>tv. snd tv = v) json_table of None \<Rightarrow> ''null'' | Some tv \<Rightarrow> fst tv)"

definition test_Date_value :: "jsval \<Rightarrow> int option" where
  "test_Date_value v = (case v of JNum (Finite r) \<Rightarrow> Some \<lfloor>r\<rfloor> | _ \<Rightarrow> None)"

definition served :: "(request \<times> outcome) list \<Rightarrow> request list \<Rightarrow> request \<Rightarrow> outcome" where
  "served table history r = (case map_of table r of None \<Rightarrow> Rejected | Some out \<Rightarrow> out)"

definition test_platform :: platform where
  "test_platform =
     \<lparr>JSON_parse = map_of json_table,
      JSON_stringify = test_stringify,
      Date_value = test_Date_value,
      clock = 1000,
      toISOString = (\<lambda>t. ''1970-01-01T00:00:01.000Z''),
      ToPropertyKey = (\<lambda>v. case v of JStr s \<Rightarrow> s | JNull \<Rightarrow> ''null'' | _ \<Rightarrow> ''undefined''),
      ToNumber = (\<lambda>v. case v of JNum n \<Rightarrow> n | _ \<Rightarrow> NaN),
      network = served [],
      pathname = ''/index.html''\<rparr>"

definition link :: "string \<Rightarrow> string \<Rightarrow> string \<Rightarrow> node" where
  "link cn url label = Element \<lparr>className = cn, href = JStr url, title = JUndef\<rparr> [Text (JStr label)]"

definition box :: "string \<Rightarrow> node list \<Rightarrow> node" where
  "box cn children = Element \<lparr>className = cn, href = JUndef, title = JUndef\<rparr> children"

definition page_plain :: "node list" where
  "page_plain = [box ''hero'' [link ''btn primary'' ''https://old.example'' ''Go'']]"




definition fresh :: "node list \<Rightarrow> state" where
  "fresh doc =
     \<lparr>buttons = default_buttons, config = JUndef, document = doc,
      localStorage = Map.empty, trace = []\<rparr>"

definition api_first :: string where
  "api_first = SHEETDB_API @ ''?sheet=Sheet1''"

text \<open>
  Networks: the hosted store answers with an error status while the static file is
  there; the store answers with an error status; the store serves one row.
\<close>

definition store_down_file_up :: platform where
  "store_down_file_up =
     test_platform\<lparr>network := served [(GET api_first, Response False ''Service Unavailable''),
                                        (GET SHEETDB_API, Response False ''Service Unavailable''),
                                        (GET configPath, Response True static_text)]\<rparr>"

definition store_down :: platform where
  "store_down =
     test_platform\<lparr>network := served [(GET api_first, Response False ''Service Unavailable''),
                                        (GET SHEETDB_API, Response False ''Service Unavailable'')]\<rparr>"

definition store_up :: platform where
  "store_up =
     test_platform\<lparr>network := served [(GET api_first, Response True rows_text),
                                        (GET SHEETDB_API, Response True rows_text)]\<rparr>"

definition cached :: "string \<Rightarrow> state \<Rightarrow> state" where
  "cached saved s = s\<lparr>localStorage := [''buttonData'' \<mapsto> saved]\<rparr>"



section \<open>Notions the properties are stated with\<close>




text \<open>
  No button is nested in a button: an element that carries one of the names as a class
  has text children only, so that writing its text detaches no element.
\<close>

definition is_text :: "node \<Rightarrow> bool" where
  "is_text n = (case n of Text v \<Rightarrow> True | Element e cs \<Rightarrow> False)"

definition named :: "string list \<Rightarrow> string \<Rightarrow> bool" where
  "named ks cn = list_ex (\<lambda>k. k \<in> set (classList cn)) ks"


text \<open>
  What a loop over selected elements writes, as data: per element, by its class
  attribute, the new \<^verbatim>\<open>href\<close>, text and \<^verbatim>\<open>title\<close>, if any.
\<close>

record writes =
  w_href :: "jsval option"
  w_text :: "jsval option"
  w_title :: "jsval option"

definition no_writes :: writes where
  "no_writes = \<lparr>w_href = None, w_text = None, w_title = None\<rparr>"

definition later :: "'a option \<Rightarrow> 'a option \<Rightarrow> 'a option" where
  "later a b = (case b of None \<Rightarrow> a | Some v \<Rightarrow> Some v)"

definition then_writes :: "writes \<Rightarrow> writes \<Rightarrow> writes" where
  "then_writes a b =
     \<lparr>w_href = later (w_href a) (w_href b), w_text = later (w_text a) (w_text b),
      w_title = later (w_title a) (w_title b)\<rparr>"

definition written :: "writes \<Rightarrow> element \<Rightarrow> element" where
  "written w e =
     e\<lparr>href := (case w_href w of None \<Rightarrow> href e | Some v \<Rightarrow> v),
       title := (case w_title w of None \<Rightarrow> title e | Some v \<Rightarrow> v)\<rparr>"

fun apply_writes :: "(string \<Rightarrow> writes) \<Rightarrow> node \<Rightarrow> node" where
  "apply_writes H (Text v) = Text v"
| "apply_writes H (Element e cs) =
     Element (written (H (className e)) e)
       (case w_text (H (className e)) of
          None \<Rightarrow> map (apply_writes H) cs
        | Some v \<Rightarrow> [Text v])"





text \<open>Writes that give new text to elements with one of the names only.\<close>

definition confined :: "string list \<Rightarrow> (string \<Rightarrow> writes) \<Rightarrow> bool" where
  "confined ks H = (\<forall>cn. w_text (H cn) \<noteq> None \<longrightarrow> named ks cn)"

text \<open>
  The synchronizer of script.js writes one element per name, the first that
  \<^verbatim>\<open>.btn.name\<close> matches; so its writes are told by the position of the element in
  document order, not by its class. \<open>write_from H i doc\<close> applies the writes \<open>H\<close> to a
  document whose first element has position \<open>i\<close>.
\<close>

fun write_at :: "(nat \<Rightarrow> writes) \<Rightarrow> nat \<Rightarrow> node \<Rightarrow> node"
  and write_from :: "(nat \<Rightarrow> writes) \<Rightarrow> nat \<Rightarrow> node list \<Rightarrow> node list" where
  "write_at H i (Text v) = Text v"
| "write_at H i (Element e cs) =
     Element (written (H i) e)
       (case w_text (H i) of None \<Rightarrow> write_from H (Suc i) cs | Some v \<Rightarrow> [Text v])"
| "write_from H i [] = []"
| "write_from H i (n # ns) = write_at H i n # write_from H (i + length (elements_of n)) ns"






text \<open>
  Writes by position that give new text only to elements with one of the names, in a
  document whose classes, from position \<open>i\<close> on, are \<open>cns\<close>.
\<close>

definition confined_from :: "string list \<Rightarrow> string list \<Rightarrow> nat \<Rightarrow> (nat \<Rightarrow> writes) \<Rightarrow> bool" where
  "confined_from ks cns i H = (\<forall>j < length cns. w_text (H (i + j)) \<noteq> None \<longrightarrow> named ks (cns ! j))"



text \<open>
  The button of a row: what the loop over the buttons makes of a button, given the row
  (\<open>None\<close>: the step throws).
\<close>

definition refreshed :: "platform \<Rightarrow> (jsval \<Rightarrow> bool) \<Rightarrow> jsval \<Rightarrow> jsval \<Rightarrow> jsval option" where
  "refreshed P accept row button =
     (case js_get button ''column'' of
        None \<Rightarrow> None
      | Some columnName \<Rightarrow>
          (case js_get row (key_of P columnName) of
             None \<Rightarrow> None
           | Some v \<Rightarrow> if accept v then js_set button ''url'' v else Some button))"

text \<open>
  A button map with all the configured names, and a cache that, if it holds a snapshot
  that parses, holds one with all the names.
\<close>

definition configured :: "jsval \<Rightarrow> bool" where
  "configured bs =
     (case bs of
        JObj kvs \<Rightarrow> list_all (\<lambda>k. k \<in> fst ` set kvs) [''primary'', ''secondary'', ''accent'']
      | _ \<Rightarrow> False)"

definition cache_configured :: "platform \<Rightarrow> state \<Rightarrow> bool" where
  "cache_configured P s =
     (case localStorage s ''buttonData'' of
        None \<Rightarrow> True
      | Some saved \<Rightarrow>
          (case JSON_parse P saved of None \<Rightarrow> True | Some v \<Rightarrow> configured v))"

text \<open>
  The invariant of the button manager, and what it needs of the JSON codec: a snapshot
  with all the names, written and read back, has all the names.
\<close>

definition names_kept :: "platform \<Rightarrow> state \<Rightarrow> bool" where
  "names_kept P s = (configured (buttons s) \<and> cache_configured P s)"


text \<open>A step that keeps the names of the map and leaves the cache or stores the map in it.\<close>

definition keeps :: "platform \<Rightarrow> state \<Rightarrow> state \<Rightarrow> bool" where
  "keeps P s s' =
     (\<forall>kvs. buttons s = JObj kvs \<longrightarrow>
        (\<exists>kvs'. buttons s' = JObj kvs' \<and> map fst kvs' = map fst kvs)
        \<and> (localStorage s' = localStorage s
           \<or> localStorage s' = (localStorage s)(''buttonData'' \<mapsto> JSON_stringify P (buttons s'))))"


section \<open>Properties of auth.js\<close>

lemma strict_eq_JStr: "strict_eq (JStr a) v = (v = JStr a)"
  by (cases v) auto

text \<open>
  C7. \<^verbatim>\<open>authenticate\<close> scans the static credential list for an exact match of user
  name and password: for the strings \<^verbatim>\<open>admin\<close> and \<^verbatim>\<open>G9m#tX2!pV7q@Lz4\<close> the result is
  authenticated with role \<^verbatim>\<open>admin\<close>, and for every other pair of arguments it is the
  unauthenticated result.
\<close>

theorem authenticate_admin_only:
  "authenticate uname pw =
     (if uname = JStr ''admin'' \<and> pw = JStr ''G9m#tX2!pV7q@Lz4''
      then JObj [(''authenticated'', JBool True), (''username'', JStr ''admin''),
                 (''role'', JStr ''admin'')]
      else JObj [(''authenticated'', JBool False)])"
  by (simp add: authenticate_def AUTH_CONFIG_def strict_eq_JStr)

lemmas fixture_defs = test_platform_def json_table_def marker_valid_def marker_empty_user_def
  marker_bad_date_def marker_expired_def empty_object_text_def cached_text_def rows_text_def
  no_rows_text_def static_text_def test_Date_value_def




text \<open>
  C10. When the stored marker parses, its \<^verbatim>\<open>username\<close> and \<^verbatim>\<open>token\<close> are truthy and
  its \<^verbatim>\<open>expires\<close> is not a valid date, \<^verbatim>\<open>isAuthenticated\<close> returns \<^verbatim>\<open>false\<close>: the
  comparison of the invalid date with the current time is false. When the stored data
  does not parse, \<^verbatim>\<open>getCurrentUser\<close> returns \<^verbatim>\<open>null\<close>. Both functions return a value
  in every case.
\<close>
theorem invalid_date_not_authenticated:
  "(store ''auth'' = Some marker \<and> JSON_parse P marker = Some v
      \<and> js_get v ''username'' = Some u \<and> truthy u
      \<and> js_get v ''token'' = Some t \<and> truthy t
      \<and> js_get v ''expires'' = Some e \<and> Date_value P e = None
     \<longrightarrow> isAuthenticated P store = JBool False)
   \<and> (store ''auth'' = Some marker \<and> JSON_parse P marker = None
     \<longrightarrow> getCurrentUser P store = JNull)"
  by (auto simp: isAuthenticated_def isAuthenticated_try_def getCurrentUser_def js_and_def date_gt_def)

text \<open>C10 on the test platform: a marker whose \<^verbatim>\<open>expires\<close> is no date, and stored text that is no JSON.\<close>
theorem invalid_date_not_authenticated_witness:
  "isAuthenticated test_platform [''auth'' \<mapsto> marker_bad_date] = JBool False
   \<and> getCurrentUser test_platform [''auth'' \<mapsto> ''not json''] = JNull"
proof -
  have a: "[''auth'' \<mapsto> marker_bad_date] ''auth'' = Some marker_bad_date" by simp
  have p: "JSON_parse test_platform marker_bad_date =
      Some (JObj [(''username'', JStr ''admin''), (''token'', JStr ''t1''), (''expires'', JStr ''soon'')])"
    by (simp add: fixture_defs)
  have d: "Date_value test_platform (JStr ''soon'') = None"
    by (simp add: fixture_defs)
  have 1: "isAuthenticated test_platform [''auth'' \<mapsto> marker_bad_date] = JBool False"
    using invalid_date_not_authenticated [where store = "[''auth'' \<mapsto> marker_bad_date]"
        and marker = marker_bad_date and P = test_platform
        and v = "JObj [(''username'', JStr ''admin''), (''token'', JStr ''t1''), (''expires'', JStr ''soon'')]"
        and u = "JStr ''admin''" and t = "JStr ''t1''" and e = "JStr ''soon''"] a p d
    by simp
  have n: "JSON_parse test_platform ''not json'' = None"
    by (simp add: fixture_defs)
  have 2: "getCurrentUser test_platform [''auth'' \<mapsto> ''not json''] = JNull"
    using invalid_date_not_authenticated [of "[''auth'' \<mapsto> ''not json'']" "''not json''"
        test_platform] n
    by simp
  from 1 2 show ?thesis by simp
qed

section \<open>Properties of the synchronizer\<close>

subsection \<open>The synchronizer of the hosted row store\<close>

lemma apply_no_writes [simp]: "apply_writes (\<lambda>cn. no_writes) n = n"
  by (induction n) (auto simp: no_writes_def written_def map_idI)

lemma map_apply_no_writes [simp]: "map (apply_writes (\<lambda>cn. no_writes)) doc = doc"
  by (simp add: map_idI)

lemma className_written [simp]: "className (written w e) = className e"
  by (simp add: written_def)



lemma then_writes_same [simp]: "then_writes w w = w"
  by (simp add: then_writes_def later_def split: option.splits)



lemma css_ident_btn [simp]: "css_ident ''btn''"
  by (simp add: css_ident_def ident_start_def ident_char_def digit_of_def)











lemma confined_none [simp]: "confined ks (\<lambda>cn. no_writes)"
  by (simp add: confined_def no_writes_def)






subsection \<open>The synchronizer of script.js\<close>

lemma written_none [simp]: "written no_writes e = e"
  by (simp add: written_def no_writes_def)

lemma write_nothing:
  "(\<forall>j. i \<le> j \<and> j < i + length (elements_of n) \<longrightarrow> H j = no_writes) \<Longrightarrow> write_at H i n = n"
  "(\<forall>j. i \<le> j \<and> j < i + length (concat (map elements_of ns)) \<longrightarrow> H j = no_writes)
     \<Longrightarrow> write_from H i ns = ns"
proof (induction H i n and H i ns rule: write_at_write_from.induct)
  case (1 H i v)
  show ?case by simp
next
  case (2 H i e cs)
  then have h: "H i = no_writes" by simp
  then have t: "w_text (H i) = None" by (simp add: no_writes_def)
  have "write_from H (Suc i) cs = cs"
    by (rule 2(1) [OF t]) (use 2(2) in auto)
  with h t show ?case by simp
next
  case (3 H i)
  show ?case by simp
next
  case (4 H i n ns)
  then show ?case by auto
qed











lemma all_text_write: "list_all is_text cs \<Longrightarrow> write_from H i cs = cs"
  by (induction cs arbitrary: i) (auto simp: is_text_def split: node.splits)




lemma write_no_writes [simp]: "write_from (\<lambda>i. no_writes) i doc = doc"
  by (rule write_nothing) simp




lemma confined_from_none [simp]: "confined_from ks cns i (\<lambda>j. no_writes)"
  by (simp add: confined_from_def no_writes_def)









subsection \<open>Idempotence\<close>





section \<open>Properties of updateButton\<close>




lemma sent_append [simp]: "sent (a @ b) = sent a @ sent b"
  by (induction a rule: sent.induct) auto

lemma updateButtons_frame:
  "updateButtons s = (r, s') \<Longrightarrow>
     buttons s' = buttons s \<and> localStorage s' = localStorage s \<and> config s' = config s
     \<and> trace s' = trace s @ [Synchronized]
     \<and> document s' = snd (updateButtons_dom (buttons s) (document s))
     \<and> (r = Inr ()) = (fst (updateButtons_dom (buttons s) (document s)) = None)"
  by (auto simp: updateButtons_def split: prod.splits option.splits)




lemma selects_member: "selects sel cn \<Longrightarrow> k \<in> set sel \<Longrightarrow> k \<in> set (classList cn)"
  by (auto simp: selects_def list_all_iff)

















section \<open>Properties of the loaders\<close>

lemma keys_update_present: "k \<in> fst ` set al \<Longrightarrow> map fst (AList.update k v al) = map fst al"
  by (induction al) auto

lemma column_update_obj:
  assumes "column_update P accept row (JObj kvs) (k, d) = Inr (bs', w)"
    and "map_of kvs k = Some d"
  shows "\<exists>d'. refreshed P accept row d = Some d' \<and> bs' = JObj (AList.update k d' kvs)
              \<and> (d' = d \<or> w)"
proof -
  show ?thesis
    using assms
    by (auto simp: column_update_def refreshed_def update_triv split: option.splits if_splits)
qed

lemma forEach_columns_obj:
  "distinct (map fst es) \<Longrightarrow> list_all (\<lambda>kd. map_of kvs (fst kd) = Some (snd kd)) es \<Longrightarrow>
   forEach_columns P accept row es (JObj kvs, w) = (r, bs', w') \<Longrightarrow>
     \<exists>kvs'. bs' = JObj kvs' \<and> map fst kvs' = map fst kvs
        \<and> (r = None \<longrightarrow>
             (\<forall>k. map_of kvs' k =
                    (if k \<in> fst ` set es
                     then (case map_of kvs k of None \<Rightarrow> None | Some d \<Rightarrow> refreshed P accept row d)
                     else map_of kvs k)))"
proof (induction es arbitrary: kvs w)
  case Nil
  then show ?case by auto
next
  case (Cons entry es)
  obtain k d where entry: "entry = (k, d)" by (cases entry)
  with Cons.prems have kd: "map_of kvs k = Some d" and fresh: "k \<notin> fst ` set es"
    and dist: "distinct (map fst es)" and rest: "list_all (\<lambda>kd. map_of kvs (fst kd) = Some (snd kd)) es"
    by auto
  from kd have mem: "k \<in> fst ` set kvs" by (force dest: map_of_SomeD)
  show ?case
  proof (cases "column_update P accept row (JObj kvs) (k, d)")
    case (Inl e)
    with Cons.prems(3) entry show ?thesis by auto
  next
    case (Inr res)
    obtain bs1 w1 where res: "res = (bs1, w1)" by (cases res)
    from column_update_obj [OF Inr [unfolded res] kd]
    obtain d' where d': "refreshed P accept row d = Some d'"
        and bs1: "bs1 = JObj (AList.update k d' kvs)"
      by blast
    let ?kvs1 = "AList.update k d' kvs"
    have rest1: "list_all (\<lambda>kd. map_of ?kvs1 (fst kd) = Some (snd kd)) es"
      using rest fresh by (auto simp: list_all_iff update_conv' rev_image_eqI)
    from Cons.prems(3) entry Inr res bs1
    have run: "forEach_columns P accept row es (JObj ?kvs1, w \<or> w1) = (r, bs', w')"
      by simp
    from Cons.IH [OF dist rest1 run]
    obtain kvs' where 1: "bs' = JObj kvs'" and 2: "map fst kvs' = map fst ?kvs1"
      and 3: "r = None \<longrightarrow>
             (\<forall>j. map_of kvs' j =
                    (if j \<in> fst ` set es
                     then (case map_of ?kvs1 j of None \<Rightarrow> None | Some d \<Rightarrow> refreshed P accept row d)
                     else map_of ?kvs1 j))"
      by blast
    have 4: "map fst kvs' = map fst kvs"
      using 2 mem by (simp add: keys_update_present)
    have 5: "r = None \<longrightarrow>
             (\<forall>j. map_of kvs' j =
                    (if j \<in> fst ` set (entry # es)
                     then (case map_of kvs j of None \<Rightarrow> None | Some d \<Rightarrow> refreshed P accept row d)
                     else map_of kvs j))"
      using 3 fresh kd d' entry by (auto simp: update_conv')
    from 1 4 5 show ?thesis by blast
  qed
qed

lemma entries_lookup: "list_all (\<lambda>kd. map_of kvs (fst kd) = Some (snd kd)) (AList.clearjunk kvs)"
proof -
  have "map_of (AList.clearjunk kvs) k = Some d \<Longrightarrow> map_of kvs k = Some d" for k d
    by (simp add: map_of_clearjunk)
  then show ?thesis
    by (auto simp: list_all_iff distinct_clearjunk)
qed

lemma fst_entries: "fst ` set (AList.clearjunk kvs) = fst ` set kvs"
  using dom_clearjunk [of kvs] by (simp add: dom_map_of_conv_image_fst)

lemma rows_into_buttons:
  assumes "forEach_columns P accept row (AList.clearjunk kvs) (JObj kvs, w) = (r, bs', w')"
  shows "\<exists>kvs'. bs' = JObj kvs' \<and> map fst kvs' = map fst kvs
        \<and> (r = None \<longrightarrow>
             (\<forall>k d. map_of kvs k = Some d \<longrightarrow> map_of kvs' k = refreshed P accept row d))"
proof -
  from forEach_columns_obj [OF distinct_clearjunk entries_lookup assms]
  obtain kvs' where 1: "bs' = JObj kvs'" and 2: "map fst kvs' = map fst kvs"
    and 3: "r = None \<longrightarrow>
             (\<forall>k. map_of kvs' k =
                    (if k \<in> fst ` set (AList.clearjunk kvs)
                     then (case map_of kvs k of None \<Rightarrow> None | Some d \<Rightarrow> refreshed P accept row d)
                     else map_of kvs k))"
    by blast
  have "r = None \<longrightarrow> (\<forall>k d. map_of kvs k = Some d \<longrightarrow> map_of kvs' k = refreshed P accept row d)"
  proof (intro impI allI)
    fix k d assume r: "r = None" and kd: "map_of kvs k = Some d"
    then have "k \<in> fst ` set kvs" by (force dest: map_of_SomeD)
    with 3 r kd show "map_of kvs' k = refreshed P accept row d"
      by (simp add: fst_entries)
  qed
  with 1 2 show ?thesis by blast
qed

lemma loadButtonData_ok_frame:
  "loadButtonData_ok P body s = (r, s') \<Longrightarrow> trace s' = trace s \<and> document s' = document s"
  by (auto simp: loadButtonData_ok_def setItem_def split: option.splits if_splits prod.splits)

lemma loadButtonData_fallback_frame:
  "loadButtonData_fallback P s = (r, s') \<Longrightarrow>
     trace s' = trace s \<and> document s' = document s \<and> localStorage s' = localStorage s"
  by (auto simp: loadButtonData_fallback_def split: option.splits if_splits)

lemma loadButtonData_sent:
  "sent (trace (snd (loadButtonData P s))) = sent (trace s) @ [GET (SHEETDB_API @ ''?sheet=Sheet1'')]"
proof -
  let ?r = "GET (SHEETDB_API @ ''?sheet=Sheet1'')"
  let ?s1 = "s\<lparr>trace := trace s @ [Fetched ?r]\<rparr>"
  show ?thesis
  proof (cases "network P (sent (trace s)) ?r")
    case Rejected
    then show ?thesis
      by (simp add: loadButtonData_def loadButtonData_try_def fetch_def)
  next
    case (Response ok body)
    obtain r2 s2 where b: "(if ok then loadButtonData_ok P body ?s1 else loadButtonData_fallback P ?s1) = (r2, s2)"
      by (cases "if ok then loadButtonData_ok P body ?s1 else loadButtonData_fallback P ?s1")
    then have t2: "trace s2 = trace ?s1"
      by (auto dest: loadButtonData_ok_frame loadButtonData_fallback_frame split: if_splits)
    obtain r3 s3 where u: "updateButtons s2 = (r3, s3)" by (cases "updateButtons s2")
    from updateButtons_frame [OF u] have t3: "trace s3 = trace s2 @ [Synchronized]" by simp
    from Response b u t2 t3 show ?thesis
      by (cases r2; cases r3) (simp_all add: loadButtonData_def loadButtonData_try_def fetch_def)
  qed
qed

lemma loadButtonData_not_ok:
  assumes "network P (sent (trace s)) (GET (SHEETDB_API @ ''?sheet=Sheet1'')) = Response False body"
  shows "(\<forall>saved v. localStorage s ''buttonData'' = Some saved \<and> saved \<noteq> []
             \<and> JSON_parse P saved = Some v
           \<longrightarrow> buttons (snd (loadButtonData P s)) = v
               \<and> (\<not> on_admin_page P \<longrightarrow>
                    document (snd (loadButtonData P s)) = snd (updateButtons_dom v (document s))
                    \<and> fst (loadButtonData P s) = (fst (updateButtons_dom v (document s)) = None)))
         \<and> (localStorage s ''buttonData'' = None \<or> localStorage s ''buttonData'' = Some []
           \<longrightarrow> buttons (snd (loadButtonData P s)) = buttons s)"
  using assms
  by (auto simp: loadButtonData_def loadButtonData_try_def fetch_def loadButtonData_fallback_def
      updateButtons_def split: prod.splits option.splits)

lemma loadButtonData_ok_rows:
  assumes "loadButtonData_ok P body s = (r, s')"
    and "JSON_parse P body = Some data" and "nonempty_rows P data" and "js_get data ''0'' = Some row"
    and "buttons s = JObj kvs"
  shows "\<exists>kvs'. buttons s' = JObj kvs' \<and> map fst kvs' = map fst kvs
           \<and> (r = Inr () \<longrightarrow>
                (\<forall>k d. map_of kvs k = Some d \<longrightarrow> map_of kvs' k = refreshed P defined_nonempty row d)
                \<and> localStorage s' = (localStorage s)(''buttonData'' \<mapsto> JSON_stringify P (buttons s')))"
proof -
  obtain e bs w where f: "forEach_columns P defined_nonempty row (AList.clearjunk kvs) (JObj kvs, False)
      = (e, bs, w)"
    by (cases "forEach_columns P defined_nonempty row (AList.clearjunk kvs) (JObj kvs, False)")
  from rows_into_buttons [OF f]
  obtain kvs' where 1: "bs = JObj kvs'" and 2: "map fst kvs' = map fst kvs"
    and 3: "e = None \<longrightarrow>
             (\<forall>k d. map_of kvs k = Some d \<longrightarrow> map_of kvs' k = refreshed P defined_nonempty row d)"
    by blast
  from assms f have "buttons s' = bs \<and> (r = Inr ()) = (e = None)
      \<and> (e = None \<longrightarrow> localStorage s' = (localStorage s)(''buttonData'' \<mapsto> JSON_stringify P bs))"
    by (auto simp: loadButtonData_ok_def setItem_def split: option.splits)
  with 1 2 3 show ?thesis by auto
qed

lemma loadButtonData_ok_response:
  assumes "network P (sent (trace s)) (GET (SHEETDB_API @ ''?sheet=Sheet1'')) = Response True body"
    and "JSON_parse P body = Some data" and "nonempty_rows P data" and "js_get data ''0'' = Some row"
    and "buttons s = JObj kvs"
  shows "\<exists>kvs'. buttons (snd (loadButtonData P s)) = JObj kvs' \<and> map fst kvs' = map fst kvs
           \<and> (fst (loadButtonData P s) \<longrightarrow>
                (\<forall>k d. map_of kvs k = Some d \<longrightarrow> map_of kvs' k = refreshed P defined_nonempty row d)
                \<and> localStorage (snd (loadButtonData P s)) ''buttonData''
                    = Some (JSON_stringify P (buttons (snd (loadButtonData P s)))))"
proof -
  let ?r = "GET (SHEETDB_API @ ''?sheet=Sheet1'')"
  let ?s1 = "s\<lparr>trace := trace s @ [Fetched ?r]\<rparr>"
  obtain r2 s2 where b: "loadButtonData_ok P body ?s1 = (r2, s2)"
    by (cases "loadButtonData_ok P body ?s1")
  from loadButtonData_ok_rows [OF b assms(2-4)] assms(5)
  obtain kvs' where 1: "buttons s2 = JObj kvs'" and 2: "map fst kvs' = map fst kvs"
    and 3: "r2 = Inr () \<longrightarrow>
                (\<forall>k d. map_of kvs k = Some d \<longrightarrow> map_of kvs' k = refreshed P defined_nonempty row d)
                \<and> localStorage s2 = (localStorage s)(''buttonData'' \<mapsto> JSON_stringify P (buttons s2))"
    by auto
  obtain r3 s3 where u: "updateButtons s2 = (r3, s3)" by (cases "updateButtons s2")
  note fr = updateButtons_frame [OF u]
  have out: "loadButtonData P s =
      (case r2 of Inl e \<Rightarrow> (False, s2)
       | Inr x \<Rightarrow> if on_admin_page P then (True, s2)
                  else (case r3 of Inl e \<Rightarrow> (False, s3) | Inr y \<Rightarrow> (True, s3)))"
    using assms(1) b u
    by (simp add: loadButtonData_def loadButtonData_try_def fetch_def split: sum.splits)
  from 1 2 3 fr show ?thesis
    unfolding out by (cases r2; cases r3) auto
qed

lemma loadConfig_sent:
  "sent (trace (snd (loadConfig P s))) = sent (trace s) @ [GET SHEETDB_API]"
proof -
  have l: "sent (trace (snd (loadFromLocalStorage P t))) = sent (trace t)" for t
    by (auto simp: loadFromLocalStorage_def updateButtons_def split: option.splits prod.splits)
  obtain r s1 where t: "loadConfig_try P s = (r, s1)" by (cases "loadConfig_try P s")
  then have "trace s1 = trace s @ [Fetched (GET SHEETDB_API)]"
    by (auto simp: loadConfig_try_def fetch_def setItem_def
        split: outcome.splits option.splits if_splits prod.splits)
  with t l [of s1] show ?thesis
    by (cases r) (simp_all add: loadConfig_def)
qed

lemma loadConfig_failed:
  assumes "network P (sent (trace s)) (GET SHEETDB_API) = Rejected
     \<or> (\<exists>body. network P (sent (trace s)) (GET SHEETDB_API) = Response False body)
     \<or> (\<exists>body. network P (sent (trace s)) (GET SHEETDB_API) = Response True body
           \<and> JSON_parse P body = None)"
  shows "loadConfig P s = loadFromLocalStorage P (s\<lparr>trace := trace s @ [Fetched (GET SHEETDB_API)]\<rparr>)"
  using assms
  by (auto simp: loadConfig_def loadConfig_try_def fetch_def)

lemma loadFromLocalStorage_cached:
  assumes "localStorage s ''buttonData'' = Some saved" and "saved \<noteq> []"
    and "JSON_parse P saved = Some v"
  shows "buttons (snd (loadFromLocalStorage P s)) = v
     \<and> document (snd (loadFromLocalStorage P s)) = snd (updateButtons_dom v (document s))
     \<and> fst (loadFromLocalStorage P s) = (fst (updateButtons_dom v (document s)) = None)"
  using assms
  by (auto simp: loadFromLocalStorage_def updateButtons_def split: prod.splits option.splits)

text \<open>
  C1, as amended. The loader has two sources, the hosted store and the local cache, in
  that order; it never requests the static file.
  \<^item> \<^verbatim>\<open>loadButtonData\<close> sends one request, to the hosted store, and none to
    \<^verbatim>\<open>config.json\<close>.
  \<^item> When the store answers ok with at least one row and the button map is an object,
    the map keeps its names; when the call returns \<^verbatim>\<open>true\<close>, each button is the
    old one with the \<^verbatim>\<open>url\<close> of its column in the first row (if that is defined and
    not empty), and the cache holds the serialized map.
  \<^item> When the store answers with an error status and the cache holds a snapshot that
    parses, the button map is that snapshot, and off the admin page the document is
    the one \<^verbatim>\<open>updateButtons\<close> computes from it. With no cache the map stays.
  \<^item> \<^verbatim>\<open>loadConfig\<close> sends one request, to the hosted store; when it is rejected,
    answered with an error status or with a body that does not parse, and the cache
    holds a snapshot that parses, the map is that snapshot and the document is
    synchronized from it.
\<close>

theorem loader_sources:
  "(let first = network P (sent (trace s)) (GET (SHEETDB_API @ ''?sheet=Sheet1''));
        out = loadButtonData P s
    in sent (trace (snd out)) = sent (trace s) @ [GET (SHEETDB_API @ ''?sheet=Sheet1'')]
       \<and> (GET configPath \<in> set (sent (trace (snd out)))) = (GET configPath \<in> set (sent (trace s)))
       \<and> (\<forall>body data row kvs.
             first = Response True body \<and> JSON_parse P body = Some data \<and> nonempty_rows P data
             \<and> js_get data ''0'' = Some row \<and> buttons s = JObj kvs
           \<longrightarrow> (\<exists>kvs'. buttons (snd out) = JObj kvs' \<and> map fst kvs' = map fst kvs
                  \<and> (fst out \<longrightarrow>
                       (\<forall>k d. map_of kvs k = Some d
                          \<longrightarrow> map_of kvs' k = refreshed P defined_nonempty row d)
                       \<and> localStorage (snd out) ''buttonData''
                           = Some (JSON_stringify P (buttons (snd out))))))
       \<and> (\<forall>body saved v.
             first = Response False body \<and> localStorage s ''buttonData'' = Some saved
             \<and> saved \<noteq> [] \<and> JSON_parse P saved = Some v
           \<longrightarrow> buttons (snd out) = v
               \<and> (\<not> on_admin_page P \<longrightarrow>
                    document (snd out) = snd (updateButtons_dom v (document s))
                    \<and> fst out = (fst (updateButtons_dom v (document s)) = None)))
       \<and> (\<forall>body.
             first = Response False body
             \<and> (localStorage s ''buttonData'' = None \<or> localStorage s ''buttonData'' = Some [])
           \<longrightarrow> buttons (snd out) = buttons s))
   \<and> (let first = network P (sent (trace s)) (GET SHEETDB_API);
            out = loadConfig P s
        in sent (trace (snd out)) = sent (trace s) @ [GET SHEETDB_API]
           \<and> (\<forall>saved v.
                 (first = Rejected \<or> (\<exists>body. first = Response False body)
                  \<or> (\<exists>body. first = Response True body \<and> JSON_parse P body = None))
                 \<and> localStorage s ''buttonData'' = Some saved \<and> saved \<noteq> []
                 \<and> JSON_parse P saved = Some v
               \<longrightarrow> buttons (snd out) = v
                   \<and> document (snd out) = snd (updateButtons_dom v (document s))))"
proof -
  let ?r = "GET (SHEETDB_API @ ''?sheet=Sheet1'')"
  have 1: "sent (trace (snd (loadButtonData P s))) = sent (trace s) @ [?r]"
    by (rule loadButtonData_sent)
  have "?r \<noteq> GET configPath"
    by (simp add: SHEETDB_API_def configPath_def)
  with 1 have 2: "(GET configPath \<in> set (sent (trace (snd (loadButtonData P s)))))
      = (GET configPath \<in> set (sent (trace s)))"
    by auto
  have 3: "\<forall>body data row kvs.
       network P (sent (trace s)) ?r = Response True body \<and> JSON_parse P body = Some data
       \<and> nonempty_rows P data \<and> js_get data ''0'' = Some row \<and> buttons s = JObj kvs
     \<longrightarrow> (\<exists>kvs'. buttons (snd (loadButtonData P s)) = JObj kvs' \<and> map fst kvs' = map fst kvs
            \<and> (fst (loadButtonData P s) \<longrightarrow>
                 (\<forall>k d. map_of kvs k = Some d
                    \<longrightarrow> map_of kvs' k = refreshed P defined_nonempty row d)
                 \<and> localStorage (snd (loadButtonData P s)) ''buttonData''
                     = Some (JSON_stringify P (buttons (snd (loadButtonData P s))))))"
    using loadButtonData_ok_response [of P s] by blast
  have 4: "\<forall>body saved v.
       network P (sent (trace s)) ?r = Response False body
       \<and> localStorage s ''buttonData'' = Some saved \<and> saved \<noteq> [] \<and> JSON_parse P saved = Some v
     \<longrightarrow> buttons (snd (loadButtonData P s)) = v
         \<and> (\<not> on_admin_page P \<longrightarrow>
              document (snd (loadButtonData P s)) = snd (updateButtons_dom v (document s))
              \<and> fst (loadButtonData P s) = (fst (updateButtons_dom v (document s)) = None))"
    using loadButtonData_not_ok [of P s] by blast
  have 5: "\<forall>body.
       network P (sent (trace s)) ?r = Response False body
       \<and> (localStorage s ''buttonData'' = None \<or> localStorage s ''buttonData'' = Some [])
     \<longrightarrow> buttons (snd (loadButtonData P s)) = buttons s"
    using loadButtonData_not_ok [of P s] by blast
  have 6: "sent (trace (snd (loadConfig P s))) = sent (trace s) @ [GET SHEETDB_API]"
    by (rule loadConfig_sent)
  have 7: "\<forall>saved v.
       (network P (sent (trace s)) (GET SHEETDB_API) = Rejected
        \<or> (\<exists>body. network P (sent (trace s)) (GET SHEETDB_API) = Response False body)
        \<or> (\<exists>body. network P (sent (trace s)) (GET SHEETDB_API) = Response True body
              \<and> JSON_parse P body = None))
       \<and> localStorage s ''buttonData'' = Some saved \<and> saved \<noteq> [] \<and> JSON_parse P saved = Some v
     \<longrightarrow> buttons (snd (loadConfig P s)) = v
         \<and> document (snd (loadConfig P s)) = snd (updateButtons_dom v (document s))"
  proof (intro allI impI)
    fix saved v
    assume a: "(network P (sent (trace s)) (GET SHEETDB_API) = Rejected
        \<or> (\<exists>body. network P (sent (trace s)) (GET SHEETDB_API) = Response False body)
        \<or> (\<exists>body. network P (sent (trace s)) (GET SHEETDB_API) = Response True body
              \<and> JSON_parse P body = None))
       \<and> localStorage s ''buttonData'' = Some saved \<and> saved \<noteq> [] \<and> JSON_parse P saved = Some v"
    let ?s1 = "s\<lparr>trace := trace s @ [Fetched (GET SHEETDB_API)]\<rparr>"
    from a have "loadConfig P s = loadFromLocalStorage P ?s1"
      by (intro loadConfig_failed) blast
    moreover from a have "buttons (snd (loadFromLocalStorage P ?s1)) = v
        \<and> document (snd (loadFromLocalStorage P ?s1)) = snd (updateButtons_dom v (document ?s1))"
      using loadFromLocalStorage_cached [of ?s1 saved P v] by simp
    ultimately show "buttons (snd (loadConfig P s)) = v
         \<and> document (snd (loadConfig P s)) = snd (updateButtons_dom v (document s))"
      by simp
  qed
  from 1 2 3 4 5 6 7 show ?thesis
    by (simp only: Let_def)
qed

text \<open>
  The amended C1 on the test platforms: the store down and a cache, the store up.
\<close>

theorem loader_sources_witness:
  "buttons (snd (loadButtonData store_down (cached cached_text (fresh page_plain)))) = cached_buttons
   \<and> document (snd (loadButtonData store_down (cached cached_text (fresh page_plain))))
       = [box ''hero'' [link ''btn primary'' ''https://cached.example'' ''Shop'']]
   \<and> buttons (snd (loadConfig store_down (cached cached_text (fresh page_plain)))) = cached_buttons
   \<and> sent (trace (snd (loadButtonData store_up (fresh page_plain)))) = [GET api_first]
   \<and> js_get (buttons (snd (loadButtonData store_up (fresh page_plain)))) ''primary''
       = Some (JObj [(''text'', JStr ''Get Started''), (''url'', JStr ''https://a.example''),
                     (''column'', JStr ''btn1''), (''displayText'', JStr ''Get Started'')])"
proof -
  let ?s = "cached cached_text (fresh page_plain)"
  let ?t = "fresh page_plain"
  let ?row = "JObj [(''btn1'', JStr ''https://a.example''), (''btn2'', JStr []), (''btn3'', JStr ''#'')]"
  let ?primary = "JObj [(''text'', JStr ''Get Started''), (''url'', JStr ''#''),
                        (''column'', JStr ''btn1''), (''displayText'', JStr ''Get Started'')]"
  let ?kvs = "[(''primary'', ?primary),
           (''secondary'', JObj [(''text'', JStr ''Learn More''), (''url'', JStr ''#''),
                                 (''column'', JStr ''btn2''), (''displayText'', JStr ''Learn More'')]),
           (''accent'', JObj [(''text'', JStr ''Join Now''), (''url'', JStr ''#''),
                              (''column'', JStr ''btn3''), (''displayText'', JStr ''Join Now'')])]"
  note down = loader_sources [of store_down ?s, unfolded Let_def]
  note up = loader_sources [of store_up ?t, unfolded Let_def]
  note down_cache = down [THEN conjunct1, THEN conjunct2, THEN conjunct2, THEN conjunct2,
      THEN conjunct1, rule_format]
  note down_config = down [THEN conjunct2, THEN conjunct2, rule_format]
  note up_sent = up [THEN conjunct1, THEN conjunct1]
  note up_rows = up [THEN conjunct1, THEN conjunct2, THEN conjunct2, THEN conjunct1, rule_format]
  have n1: "network store_down (sent (trace ?s)) (GET (SHEETDB_API @ ''?sheet=Sheet1''))
      = Response False ''Service Unavailable''"
    by code_simp
  have n2: "network store_down (sent (trace ?s)) (GET SHEETDB_API) = Response False ''Service Unavailable''"
    by code_simp
  have c1: "localStorage ?s ''buttonData'' = Some cached_text" by code_simp
  have c2: "cached_text \<noteq> []" by code_simp
  have c3: "JSON_parse store_down cached_text = Some cached_buttons" by code_simp
  have c4: "\<not> on_admin_page store_down" by code_simp
  have d: "snd (updateButtons_dom cached_buttons (document ?s))
      = [box ''hero'' [link ''btn primary'' ''https://cached.example'' ''Shop'']]"
    by code_simp
  have "buttons (snd (loadButtonData store_down ?s)) = cached_buttons
      \<and> (\<not> on_admin_page store_down \<longrightarrow>
           document (snd (loadButtonData store_down ?s)) = snd (updateButtons_dom cached_buttons (document ?s))
           \<and> fst (loadButtonData store_down ?s) = (fst (updateButtons_dom cached_buttons (document ?s)) = None))"
    by (rule down_cache [where body = "''Service Unavailable''" and saved = cached_text])
       (intro conjI n1 c1 c2 c3)
  with c4 d have 1: "buttons (snd (loadButtonData store_down ?s)) = cached_buttons
      \<and> document (snd (loadButtonData store_down ?s))
          = [box ''hero'' [link ''btn primary'' ''https://cached.example'' ''Shop'']]"
    by simp
  have "buttons (snd (loadConfig store_down ?s)) = cached_buttons
      \<and> document (snd (loadConfig store_down ?s)) = snd (updateButtons_dom cached_buttons (document ?s))"
    by (rule down_config [where saved = cached_text])
       (intro conjI disjI2 disjI1 exI [of _ "''Service Unavailable''"] n2 c1 c2 c3)
  then have 2: "buttons (snd (loadConfig store_down ?s)) = cached_buttons" by simp
  have t: "sent (trace ?t) = []" by code_simp
  from up_sent t have 3: "sent (trace (snd (loadButtonData store_up ?t))) = [GET api_first]"
    by (simp add: api_first_def)
  have u1: "network store_up (sent (trace ?t)) (GET (SHEETDB_API @ ''?sheet=Sheet1''))
      = Response True rows_text" by code_simp
  have u2: "JSON_parse store_up rows_text = Some rows" by code_simp
  have u3: "nonempty_rows store_up rows" by code_simp
  have u4: "js_get rows ''0'' = Some ?row" by code_simp
  have u5: "fst (loadButtonData store_up ?t)" by code_simp
  have b: "buttons ?t = JObj ?kvs"
    by (simp add: fresh_def default_buttons_def)
  have "\<exists>kvs'. buttons (snd (loadButtonData store_up ?t)) = JObj kvs' \<and> map fst kvs' = map fst ?kvs
      \<and> (fst (loadButtonData store_up ?t) \<longrightarrow>
           (\<forall>k d. map_of ?kvs k = Some d \<longrightarrow> map_of kvs' k = refreshed store_up defined_nonempty ?row d)
           \<and> localStorage (snd (loadButtonData store_up ?t)) ''buttonData''
               = Some (JSON_stringify store_up (buttons (snd (loadButtonData store_up ?t)))))"
    by (rule up_rows [where body = rows_text and data = rows])
       (intro conjI u1 u2 u3 u4 b)
  with u5 obtain kvs' where k: "buttons (snd (loadButtonData store_up ?t)) = JObj kvs'"
    and m: "\<forall>k d. map_of ?kvs k = Some d \<longrightarrow> map_of kvs' k = refreshed store_up defined_nonempty ?row d"
    by blast
  have "map_of ?kvs ''primary'' = Some ?primary" by simp
  with m have m': "map_of kvs' ''primary'' = refreshed store_up defined_nonempty ?row ?primary"
    by blast
  have "refreshed store_up defined_nonempty ?row ?primary
      = Some (JObj [(''text'', JStr ''Get Started''), (''url'', JStr ''https://a.example''),
                     (''column'', JStr ''btn1''), (''displayText'', JStr ''Get Started'')])"
    by code_simp
  with k m' have 4: "js_get (buttons (snd (loadButtonData store_up ?t))) ''primary''
       = Some (JObj [(''text'', JStr ''Get Started''), (''url'', JStr ''https://a.example''),
                     (''column'', JStr ''btn1''), (''displayText'', JStr ''Get Started'')])"
    by simp
  from 1 2 3 4 show ?thesis by simp
qed

text \<open>
  C1 as stated fails. The hosted store answers with an error status and the static file
  would be served, with a \<^verbatim>\<open>primary\<close> button \<^verbatim>\<open>Buy\<close>; after construction the
  button map is still the default one, the page shows the default button, and the only
  request sent went to the hosted store.
\<close>

theorem static_file_never_loaded_counterexample:
  "network store_down_file_up [] (GET api_first) = Response False ''Service Unavailable''
   \<and> network store_down_file_up [GET api_first] (GET configPath) = Response True static_text
   \<and> JSON_parse store_down_file_up static_text = Some static_config
   \<and> js_get static_config ''buttons''
       = Some (JObj [(''primary'', JObj [(''text'', JStr ''Buy''), (''url'', JStr ''https://static.example'')])])
   \<and> buttons (snd (ButtonManager store_down_file_up (fresh page_plain))) = default_buttons
   \<and> document (snd (ButtonManager store_down_file_up (fresh page_plain)))
       = [box ''hero'' [link ''btn primary'' ''#'' ''Get Started'']]
   \<and> sent (trace (snd (ButtonManager store_down_file_up (fresh page_plain)))) = [GET api_first]
   \<and> buttons (snd (loadConfig store_down_file_up (fresh page_plain))) = default_buttons
   \<and> sent (trace (snd (loadConfig store_down_file_up (fresh page_plain)))) = [GET SHEETDB_API]"
  by code_simp

text \<open>
  C5 at a failing input. The request to the hosted store is rejected (the network is
  down) and the cache holds a snapshot that parses, but \<^verbatim>\<open>loadButtonData\<close> returns
  \<^verbatim>\<open>false\<close> from its \<^verbatim>\<open>catch\<close> without reading the cache: after construction the
  button map and the page are the default ones. When the store answers with an error
  status instead, the same construction applies the cached snapshot, and so does
  \<^verbatim>\<open>loadConfig\<close> on the rejected request.
\<close>

theorem network_error_skips_cache:
  "network test_platform [] (GET api_first) = Rejected
   \<and> localStorage (cached cached_text (fresh page_plain)) ''buttonData'' = Some cached_text
   \<and> JSON_parse test_platform cached_text = Some cached_buttons
   \<and> loadButtonData test_platform (cached cached_text (fresh page_plain))
       = (False, (cached cached_text (fresh page_plain))\<lparr>trace := [Fetched (GET api_first)]\<rparr>)
   \<and> buttons (snd (ButtonManager test_platform (cached cached_text (fresh page_plain)))) = default_buttons
   \<and> document (snd (ButtonManager test_platform (cached cached_text (fresh page_plain))))
       = [box ''hero'' [link ''btn primary'' ''#'' ''Get Started'']]
   \<and> buttons (snd (ButtonManager store_down (cached cached_text (fresh page_plain)))) = cached_buttons
   \<and> document (snd (ButtonManager store_down (cached cached_text (fresh page_plain))))
       = [box ''hero'' [link ''btn primary'' ''https://cached.example'' ''Shop'']]
   \<and> buttons (snd (loadConfig test_platform (cached cached_text (fresh page_plain)))) = cached_buttons"
proof -
  let ?s = "cached cached_text (fresh page_plain)"
  have n: "network test_platform (sent (trace ?s)) (GET (SHEETDB_API @ ''?sheet=Sheet1'')) = Rejected"
    by code_simp
  have t: "trace ?s = []" by (simp add: cached_def fresh_def)
  have 1: "loadButtonData test_platform ?s = (False, ?s\<lparr>trace := [Fetched (GET api_first)]\<rparr>)"
    using n t by (simp add: loadButtonData_def loadButtonData_try_def fetch_def api_first_def)
  have 2: "network test_platform [] (GET api_first) = Rejected
   \<and> localStorage ?s ''buttonData'' = Some cached_text
   \<and> JSON_parse test_platform cached_text = Some cached_buttons
   \<and> buttons (snd (ButtonManager test_platform ?s)) = default_buttons
   \<and> document (snd (ButtonManager test_platform ?s))
       = [box ''hero'' [link ''btn primary'' ''#'' ''Get Started'']]
   \<and> buttons (snd (ButtonManager store_down ?s)) = cached_buttons
   \<and> document (snd (ButtonManager store_down ?s))
       = [box ''hero'' [link ''btn primary'' ''https://cached.example'' ''Shop'']]
   \<and> buttons (snd (loadConfig test_platform ?s)) = cached_buttons"
    by code_simp
  from 1 2 show ?thesis by simp
qed

lemma loadButtonData_rejected:
  "network P (sent (trace s)) (GET (SHEETDB_API @ ''?sheet=Sheet1'')) = Rejected \<Longrightarrow>
     loadButtonData P s = (False, s\<lparr>trace := trace s @ [Fetched (GET (SHEETDB_API @ ''?sheet=Sheet1''))]\<rparr>)"
  by (simp add: loadButtonData_def loadButtonData_try_def fetch_def)







lemma keeps_refl [simp]: "keeps P s s"
  by (simp add: keeps_def)

lemma keeps_trace [simp]: "keeps P (s\<lparr>trace := t\<rparr>) s' = keeps P s s'"
  by (simp add: keeps_def)

lemma keeps_trace' [simp]: "keeps P s (s'\<lparr>trace := t\<rparr>) = keeps P s s'"
  by (simp add: keeps_def)




lemma names_kept_trace [simp]: "names_kept P (s\<lparr>trace := t\<rparr>) = names_kept P s"
  by (simp add: names_kept_def cache_configured_def)















section \<open>Properties of the pollers\<close>





end
